theory Spec2Isabelle
  imports Main "HOL-Library.Word"
begin

section \<open>The query form of the front end (frontend/src/App.tsx)\<close>

subsection \<open>JavaScript strings\<close>

text \<open>
  A JavaScript string is a sequence of UTF-16 code units. The messages of the form are
  Chinese text, so they are written as their code units; ASCII text goes through
  \<open>ascii\<close>.
\<close>

type_synonym jsstring = "16 word list"

definition ascii :: "string \<Rightarrow> jsstring" where
  "ascii s = map of_char s"

text \<open>
  \<open>String.prototype.trim\<close> strips the code units that ECMAScript calls WhiteSpace or
  LineTerminator from both ends.
\<close>

definition isWhiteSpace :: "16 word \<Rightarrow> bool" where
  "isWhiteSpace c \<longleftrightarrow>
     c = 0x0009 \<or> c = 0x000A \<or> c = 0x000B \<or> c = 0x000C \<or> c = 0x000D \<or> c = 0x0020 \<or>
     c = 0x00A0 \<or> c = 0x1680 \<or> (0x2000 \<le> c \<and> c \<le> 0x200A) \<or> c = 0x2028 \<or>
     c = 0x2029 \<or> c = 0x202F \<or> c = 0x205F \<or> c = 0x3000 \<or> c = 0xFEFF"

definition trim :: "jsstring \<Rightarrow> jsstring" where
  "trim s = rev (dropWhile isWhiteSpace (rev (dropWhile isWhiteSpace s)))"

text \<open>\<open>a || b\<close> on a string that may be undefined: the empty string is falsy too.\<close>

definition or_else :: "jsstring option \<Rightarrow> jsstring \<Rightarrow> jsstring" where
  "or_else a b = (case a of None \<Rightarrow> b | Some v \<Rightarrow> if v = [] then b else v)"

subsection \<open>The literals of the file\<close>

text \<open>\<open>'http://localhost:3001'\<close>, the fallback of line 19.\<close>

definition default_base_url :: jsstring where
  "default_base_url = ascii ''http://localhost:3001''"

text \<open>The message of line 55, \<open>U+8ACB U+8F38 U+5165 U+67E5 U+8A62 U+5167 U+5BB9\<close>.\<close>

definition msg_empty_query :: jsstring where
  "msg_empty_query = [0x8ACB, 0x8F38, 0x5165, 0x67E5, 0x8A62, 0x5167, 0x5BB9]"

text \<open>The message of line 68, shown when \<open>pricing_data\<close> has length 0.\<close>

definition msg_no_pricing :: jsstring where
  "msg_no_pricing =
     [0x6C92, 0x6709, 0x627E, 0x5230, 0x7B26, 0x5408, 0x689D, 0x4EF6, 0x7684, 0x50F9,
      0x683C, 0x6578, 0x64DA, 0x3002, 0x0041, 0x0057, 0x0053, 0x53EF, 0x80FD, 0x6C92,
      0x6709, 0x63D0, 0x4F9B, 0x8A72, 0x5730, 0x5340, 0x6216, 0x914D, 0x7F6E, 0x7684,
      0x50F9, 0x683C, 0x4FE1, 0x606F, 0xFF0C, 0x6216, 0x8005, 0x60A8, 0x7684, 0x67E5,
      0x8A62, 0x53C3, 0x6578, 0x9700, 0x8981, 0x8ABF, 0x6574, 0x3002]"

text \<open>The prefix of the template literal of line 72, ending in a colon and a space.\<close>

definition msg_error_prefix :: jsstring where
  "msg_error_prefix = [0x932F, 0x8AA4, 0x003A, 0x0020]"

text \<open>The fallback of line 72 for a response body without an \<open>error\<close> text.\<close>

definition msg_unknown_error :: jsstring where
  "msg_unknown_error = [0x672A, 0x77E5, 0x932F, 0x8AA4]"

text \<open>The message of line 74, for a request that got no response.\<close>

definition msg_cannot_connect :: jsstring where
  "msg_cannot_connect =
     [0x7121, 0x6CD5, 0x9023, 0x63A5, 0x5230, 0x670D, 0x52D9, 0x5668, 0xFF0C, 0x8ACB,
      0x6AA2, 0x67E5, 0x5F8C, 0x7AEF, 0x670D, 0x52D9, 0x662F, 0x5426, 0x904B, 0x884C]"

text \<open>The text of the informational alert of line 172, inside the result card.\<close>

definition msg_no_pricing_info :: jsstring where
  "msg_no_pricing_info =
     [0x6C92, 0x6709, 0x627E, 0x5230, 0x7B26, 0x5408, 0x689D, 0x4EF6, 0x7684, 0x50F9,
      0x683C, 0x6578, 0x64DA, 0x3002, 0x9019, 0x53EF, 0x80FD, 0x662F, 0x56E0, 0x70BA,
      0x0041, 0x0057, 0x0053, 0x6C92, 0x6709, 0x63D0, 0x4F9B, 0x8A72, 0x914D, 0x7F6E,
      0x7684, 0x50F9, 0x683C, 0x4FE1, 0x606F, 0xFF0C, 0x6216, 0x8005, 0x53C3, 0x6578,
      0x7D44, 0x5408, 0x4E0D, 0x6B63, 0x78BA, 0x3002]"

subsection \<open>The interfaces\<close>

record PricingData =
  instanceType :: jsstring
  operatingSystem :: jsstring
  region :: jsstring
  onDemandPrice :: jsstring
  unit :: jsstring

text \<open>
  The values of \<open>pricing_data\<close> that the component tells apart. The interface declares
  an array; the tests of lines 67, 157 and 170 also provide for a missing value (falsy)
  and for an object with an \<open>error\<close> key, which has no \<open>length\<close>.
\<close>

datatype pricing_value =
    PricingUndefined
  | PricingArray "PricingData list"
  | PricingErrorObject jsstring

text \<open>\<open>v && ...\<close>: every array and every object is truthy.\<close>

definition truthy :: "pricing_value \<Rightarrow> bool" where
  "truthy v \<longleftrightarrow> v \<noteq> PricingUndefined"

text \<open>\<open>v.length\<close>, undefined (\<open>None\<close>) on a value that is no array.\<close>

definition js_length :: "pricing_value \<Rightarrow> nat option" where
  "js_length v = (case v of PricingArray xs \<Rightarrow> Some (length xs) | _ \<Rightarrow> None)"

text \<open>\<open>'error' in v\<close>, evaluated on truthy values only: false on an array.\<close>

definition has_error_key :: "pricing_value \<Rightarrow> bool" where
  "has_error_key v = (case v of PricingErrorObject _ \<Rightarrow> True | _ \<Rightarrow> False)"

text \<open>The inline type of \<open>QueryResult.parameters\<close>: four keys, each optional.\<close>

record Parameters =
  service :: "jsstring option"
  region :: "jsstring option"
  instance_type :: "jsstring option"
  os :: "jsstring option"

record QueryResult =
  query :: jsstring
  parameters :: Parameters
  pricing_data :: pricing_value
  response :: jsstring

text \<open>The object literal \<open>{ query }\<close> that is the body of the request.\<close>

record RequestBody =
  query :: jsstring

text \<open>
  What the promise of \<open>axios.post\<close> settles to. Both bodies have the type \<open>any\<close>, and a
  property of \<open>null\<close> cannot be read, so a body is \<open>null\<close> or an object. A fulfilled
  promise carries the body of the response: \<open>None\<close> for \<open>null\<close>, else a \<open>QueryResult\<close>. A
  rejected one carries what was thrown: an Axios error, with the response of the server
  when there was one, or anything else. The body of an error response is \<open>null\<close> or an
  object whose \<open>error\<close> text may be missing.
\<close>

datatype error_body = NullBody | ObjectBody "jsstring option"

record ErrorResponse =
  data :: error_body

datatype thrown = AxiosError "ErrorResponse option" | OtherError

datatype settled = Fulfilled "QueryResult option" | Rejected thrown

text \<open>The exception of reading a property of \<open>null\<close>.\<close>

datatype js_exception = TypeError

subsection \<open>The state of the component and the submit handler\<close>

text \<open>The four \<open>useState\<close> cells of \<open>App\<close>.\<close>

record AppState =
  query :: jsstring
  loading :: bool
  error :: "jsstring option"
  result :: "QueryResult option"

definition initial_state :: AppState where
  "initial_state = \<lparr>AppState.query = [], loading = False, error = None, result = None\<rparr>"

text \<open>
  What the handler does, in the order it does it: the calls of the state setters, the
  call of \<open>event.preventDefault\<close>, the one HTTP request, and the exception it lets
  escape, if any.
\<close>

datatype effect =
    PreventDefault
  | SetLoading bool
  | SetError "jsstring option"
  | SetResult "QueryResult option"
  | AxiosPost jsstring RequestBody
  | Uncaught js_exception

text \<open>
  Line 19. The argument is the value of the environment variable
  \<open>REACT_APP_API_BASE_URL\<close>, \<open>None\<close> when it is unset.
\<close>

definition API_BASE_URL :: "jsstring option \<Rightarrow> jsstring" where
  "API_BASE_URL env = or_else env default_base_url"

text \<open>
  Lines 71 to 75: the message for what the request threw. Line 72 reads
  \<open>err.response.data.error\<close> and throws when the body is \<open>null\<close>.
\<close>

definition failure_message :: "thrown \<Rightarrow> js_exception + jsstring" where
  "failure_message err =
     (case err of
        AxiosError (Some r) \<Rightarrow>
          (case data r of
             NullBody \<Rightarrow> Inl TypeError
           | ObjectBody e \<Rightarrow> Inr (msg_error_prefix @ or_else e msg_unknown_error))
      | AxiosError None \<Rightarrow> Inr msg_cannot_connect
      | OtherError \<Rightarrow> Inr msg_cannot_connect)"

text \<open>
  Lines 62 to 69, the \<open>try\<close> block: its effects and what it throws. A rejected promise
  is thrown at the \<open>await\<close>. For a body \<open>null\<close>, \<open>setResult\<close> has run when line 67 throws
  a \<open>TypeError\<close>, which is no Axios error.
\<close>

definition try_block :: "settled \<Rightarrow> effect list \<times> thrown option" where
  "try_block outcome =
     (case outcome of
        Fulfilled None \<Rightarrow> ([SetResult None], Some OtherError)
      | Fulfilled (Some d) \<Rightarrow>
          (SetResult (Some d) #
           (if truthy (pricing_data d) \<and> js_length (pricing_data d) = Some 0
            then [SetError (Some msg_no_pricing)] else []),
           None)
      | Rejected err \<Rightarrow> ([], Some err))"

text \<open>
  Lines 70 to 76, the \<open>catch\<close> block: \<open>setError\<close> with the message, then
  \<open>setResult(null)\<close>; neither runs when the message throws.
\<close>

definition catch_block :: "thrown \<Rightarrow> js_exception + effect list" where
  "catch_block err =
     (case failure_message err of
        Inl x \<Rightarrow> Inl x
      | Inr m \<Rightarrow> Inr [SetError (Some m), SetResult None])"

text \<open>
  Lines 77 to 79 after the two blocks: the \<open>finally\<close> block runs on every path, and an
  exception of the \<open>catch\<close> block escapes after it.
\<close>

definition catch_finally :: "thrown option \<Rightarrow> effect list" where
  "catch_finally t =
     (case t of
        None \<Rightarrow> [SetLoading False]
      | Some err \<Rightarrow>
          (case catch_block err of
             Inr es \<Rightarrow> es @ [SetLoading False]
           | Inl x \<Rightarrow> [SetLoading False, Uncaught x]))"

text \<open>
  Lines 51 to 80. \<open>post\<close> is the network: what the promise of \<open>axios.post\<close> settles to for
  a URL and a body.
\<close>

definition handleSubmit ::
  "jsstring option \<Rightarrow> (jsstring \<Rightarrow> RequestBody \<Rightarrow> settled) \<Rightarrow> AppState \<Rightarrow> effect list" where
  "handleSubmit env post s =
     PreventDefault #
     (if trim (AppState.query s) = [] then [SetError (Some msg_empty_query)]
      else
        let u = API_BASE_URL env @ ascii ''/api/query'';
            b = \<lparr>RequestBody.query = AppState.query s\<rparr>
        in [SetLoading True, SetError None, AxiosPost u b] @
           fst (try_block (post u b)) @ catch_finally (snd (try_block (post u b))))"

text \<open>
  The handler of the second copy of the component (the file kept as part_001, lines 50 to
  74): its \<open>try\<close> block is \<open>setResult(response.data)\<close> alone and throws nothing of its
  own; its \<open>catch\<close> and \<open>finally\<close> blocks are the same.
\<close>

definition try_block_part_001 :: "settled \<Rightarrow> effect list \<times> thrown option" where
  "try_block_part_001 outcome =
     (case outcome of
        Fulfilled body \<Rightarrow> ([SetResult body], None)
      | Rejected err \<Rightarrow> ([], Some err))"

definition handleSubmit_part_001 ::
  "jsstring option \<Rightarrow> (jsstring \<Rightarrow> RequestBody \<Rightarrow> settled) \<Rightarrow> AppState \<Rightarrow> effect list" where
  "handleSubmit_part_001 env post s =
     PreventDefault #
     (if trim (AppState.query s) = [] then [SetError (Some msg_empty_query)]
      else
        let u = API_BASE_URL env @ ascii ''/api/query'';
            b = \<lparr>RequestBody.query = AppState.query s\<rparr>
        in [SetLoading True, SetError None, AxiosPost u b] @
           fst (try_block_part_001 (post u b)) @
           catch_finally (snd (try_block_part_001 (post u b))))"

fun apply_effect :: "effect \<Rightarrow> AppState \<Rightarrow> AppState" where
  "apply_effect PreventDefault s = s"
| "apply_effect (SetLoading b) s = s\<lparr>loading := b\<rparr>"
| "apply_effect (SetError e) s = s\<lparr>error := e\<rparr>"
| "apply_effect (SetResult r) s = s\<lparr>result := r\<rparr>"
| "apply_effect (AxiosPost u b) s = s"
| "apply_effect (Uncaught x) s = s"

text \<open>The state once the handler has returned, and every state it passed through.\<close>

definition run :: "effect list \<Rightarrow> AppState \<Rightarrow> AppState" where
  "run es s = fold apply_effect es s"

fun states_during :: "effect list \<Rightarrow> AppState \<Rightarrow> AppState list" where
  "states_during [] s = []"
| "states_during (e # es) s = apply_effect e s # states_during es (apply_effect e s)"

text \<open>The HTTP requests among the effects, in order.\<close>

fun requests :: "effect list \<Rightarrow> (jsstring \<times> RequestBody) list" where
  "requests [] = []"
| "requests (AxiosPost u b # es) = (u, b) # requests es"
| "requests (_ # es) = requests es"

subsection \<open>What is rendered\<close>

text \<open>
  Lines 82 to 180, reduced to what depends on the state: the submit button, the warning
  alert of lines 131 to 135, and the result card of lines 137 to 177 with the answer, the
  parameters, the block of pricing records (lines 157 to 168, under the three tests of
  line 157) and the informational alert (lines 170 to 174, under the two tests of line
  170).
\<close>

record ResultCard =
  card_response :: jsstring
  card_parameters :: Parameters
  card_pricing_data :: "pricing_value option"
  card_info :: "jsstring option"

record View =
  submit_disabled :: bool
  alert :: "jsstring option"
  card :: "ResultCard option"

definition render_card :: "QueryResult \<Rightarrow> ResultCard" where
  "render_card r =
     \<lparr>card_response = response r,
      card_parameters = parameters r,
      card_pricing_data =
        (if truthy (pricing_data r) \<and>
            (case js_length (pricing_data r) of None \<Rightarrow> False | Some n \<Rightarrow> n > 0) \<and>
            \<not> has_error_key (pricing_data r)
         then Some (pricing_data r) else None),
      card_info =
        (if truthy (pricing_data r) \<and> js_length (pricing_data r) = Some 0
         then Some msg_no_pricing_info else None)\<rparr>"

definition render :: "AppState \<Rightarrow> View" where
  "render s =
     \<lparr>submit_disabled = loading s,
      alert = (case error s of None \<Rightarrow> None | Some e \<Rightarrow> if e = [] then None else Some e),
      card = map_option render_card (result s)\<rparr>"

subsection \<open>The setup document (README, kept as part_000)\<close>

text \<open>
  Line 54 of the document: the back end "will run at http://localhost:5000". Line 74:
  the front end at http://localhost:3000.
\<close>

definition README_backend_url :: jsstring where
  "README_backend_url = ascii ''http://localhost:5000''"

text \<open>
  The port of a URL of the shape \<open>scheme://host:port/path\<close>: the text between the last
  colon of the authority and the first slash after it.
\<close>

definition url_authority :: "jsstring \<Rightarrow> jsstring" where
  "url_authority u = takeWhile (\<lambda>c. c \<noteq> 0x2F) (drop 2 (dropWhile (\<lambda>c. c \<noteq> 0x2F) u))"

definition url_port :: "jsstring \<Rightarrow> jsstring" where
  "url_port u = rev (takeWhile (\<lambda>c. c \<noteq> 0x3A) (rev (url_authority u)))"

subsection \<open>Sample values\<close>

text \<open>
  A query, an answer without pricing records and a state that still shows it; an answer
  in which no parameter was recognised, whose text is the one of line 74.
\<close>

definition sample_query :: jsstring where
  "sample_query = ascii ''tokyo linux t2.micro''"

definition sample_no_match :: QueryResult where
  "sample_no_match =
     \<lparr>QueryResult.query = sample_query,
      parameters = \<lparr>service = Some (ascii ''EC2''), region = Some (ascii ''ap-northeast-1''),
                    instance_type = Some (ascii ''t2.micro''), os = Some (ascii ''Linux'')\<rparr>,
      pricing_data = PricingArray [],
      response = ascii ''no price found''\<rparr>"

definition sample_state :: AppState where
  "sample_state =
     \<lparr>AppState.query = sample_query, loading = False, error = None,
      result = Some sample_no_match\<rparr>"


text \<open>
  Networks: one that delivers a given answer, one that gets no response, one whose
  error response has the body \<open>null\<close>, and one whose error response has no error text.
\<close>

definition answers :: "QueryResult \<Rightarrow> jsstring \<Rightarrow> RequestBody \<Rightarrow> settled" where
  "answers d u b = Fulfilled (Some d)"

definition no_response :: "jsstring \<Rightarrow> RequestBody \<Rightarrow> settled" where
  "no_response u b = Rejected (AxiosError None)"

definition null_error_body :: "jsstring \<Rightarrow> RequestBody \<Rightarrow> settled" where
  "null_error_body u b = Rejected (AxiosError (Some \<lparr>data = NullBody\<rparr>))"


section \<open>The query pipeline behind the endpoint\<close>

text \<open>
  The form posts to a back end whose code is not among the source files: only its caller
  (the form) and the setup document are. The components of the pipeline are therefore
  modelled from the specification, section by section. Their texts are byte strings.
\<close>

subsection \<open>Term Normalizer (specification 4.1)\<close>

text \<open>
  Modelled from the spec: the keys the Term Normalizer has a rule for (the Term Normalizer
  is missing from the sources). Region and OS tokens are mapped through alias tables,
  instance-type tokens are validated against a pattern.
\<close>

datatype key = Region | InstanceType | OS
















subsection \<open>Parameter Extractor (specification 4.2)\<close>

text \<open>
  Modelled from the spec: the ParameterSet of section 3, "mapping with recognized keys
  {service, region, instance_type, os}. Each key optional" (the back end's data model is
  missing from the sources).
\<close>

record ParameterSet =
  ps_service :: "string option"
  ps_region :: "string option"
  ps_instance_type :: "string option"
  ps_os :: "string option"

text \<open>
  Modelled from the spec: the "empty ParameterSet" of section 4.2, with no key present (the
  Parameter Extractor is missing from the sources).
\<close>

definition empty_ParameterSet :: ParameterSet where
  "empty_ParameterSet =
     \<lparr>ps_service = None, ps_region = None, ps_instance_type = None, ps_os = None\<rparr>"

text \<open>
  Modelled from the spec: the error kinds of section 7 (the back end's error handling
  is missing from the sources). Only the two fatal kinds are ever returned.
\<close>

datatype error_kind =
    ExtractionUnavailable
  | ExtractionMalformed
  | NormalizationMiss
  | CatalogUnavailable
  | NoMatch




text \<open>
  Modelled from the spec: "the single supported service" (the Parameter Extractor is
  missing from the sources); its identifier is the one of the scenario of section 8.
\<close>

definition supported_service :: string where
  "supported_service = ''EC2''"





subsection \<open>Pricing Resolver (specification 4.3)\<close>

text \<open>
  Modelled from the spec: the PricingRecord of section 3 (the back end's data model is
  missing from the sources).
\<close>

record PricingRecord =
  rec_instance_type :: string
  rec_operating_system :: string
  rec_region :: string
  rec_on_demand_price :: string
  rec_unit :: string

text \<open>
  Modelled from the spec: a price-list entry of the catalog (the catalog is external). Any
  of its fields may be missing, "e.g. no on-demand price term".
\<close>

record catalog_entry =
  entry_instance_type :: "string option"
  entry_operating_system :: "string option"
  entry_region :: "string option"
  entry_on_demand_price :: "string option"
  entry_unit :: "string option"

text \<open>
  Modelled from the spec: the catalog service of section 6, "request = service
  identifier + filter set ...; response = paginated list of price-list entries with a
  continuation token when more pages remain" (the catalog is external). Its first
  argument is the number of calls it has received before, so its replies may change
  from call to call.
\<close>

record catalog_request =
  req_service :: string
  req_filters :: "(key \<times> string) list"
  req_token :: "nat option"

text \<open>
  Modelled from the spec: the replies of the catalog (the catalog is external): "unreachable/auth
  failure", or a page of entries "with a continuation token when more pages remain".
\<close>

datatype catalog_reply = Unavailable | Page "catalog_entry list" "nat option"

text \<open>
  Modelled from the spec: the catalog service as a function of the number of calls it has
  received before and of the request (the catalog is external).
\<close>

type_synonym catalog = "nat \<Rightarrow> catalog_request \<Rightarrow> catalog_reply"

text \<open>
  Modelled from the spec: "Builds a filter predicate over the catalog from present
  ParameterSet keys only" (the Pricing Resolver is missing from the sources).
\<close>

fun field_of :: "ParameterSet \<Rightarrow> key \<Rightarrow> string option" where
  "field_of p Region = ps_region p"
| "field_of p InstanceType = ps_instance_type p"
| "field_of p OS = ps_os p"

text \<open>
  Modelled from the spec: the filter that one key contributes, none when the key is absent:
  "absent keys impose no filter" (the Pricing Resolver is missing from the sources).
\<close>

definition filter_for :: "ParameterSet \<Rightarrow> key \<Rightarrow> (key \<times> string) list" where
  "filter_for p k = (case field_of p k of None \<Rightarrow> [] | Some x \<Rightarrow> [(k, x)])"

text \<open>
  Modelled from the spec: the filter set of a request, "from present ParameterSet keys only" (the
  Pricing Resolver is missing from the sources).
\<close>

definition build_filters :: "ParameterSet \<Rightarrow> (key \<times> string) list" where
  "build_filters p = filter_for p Region @ filter_for p InstanceType @ filter_for p OS"

text \<open>
  Modelled from the spec: the request of section 6, "service identifier + filter set", with the
  continuation token of the page asked for (the Pricing Resolver is missing from the
  sources). The service is the one "implicit defaulting".
\<close>

definition build_request :: "ParameterSet \<Rightarrow> nat option \<Rightarrow> catalog_request" where
  "build_request p tok =
     \<lparr>req_service = (case ps_service p of None \<Rightarrow> supported_service | Some s \<Rightarrow> s),
      req_filters = build_filters p,
      req_token = tok\<rparr>"

text \<open>
  Modelled from the spec: "Shapes each catalog entry into a PricingRecord; entries
  missing a required field ... are silently excluded" (the Pricing Resolver is missing
  from the sources).
\<close>

definition shape :: "catalog_entry \<Rightarrow> PricingRecord option" where
  "shape e =
     (case (entry_instance_type e, entry_operating_system e, entry_region e,
            entry_on_demand_price e, entry_unit e) of
        (Some i, Some s, Some r, Some p, Some u) \<Rightarrow>
          Some \<lparr>rec_instance_type = i, rec_operating_system = s, rec_region = r,
                rec_on_demand_price = p, rec_unit = u\<rparr>
      | _ \<Rightarrow> None)"

text \<open>
  Modelled from the spec: one outbound call to the catalog with "a single retry"
  (section 5) (the Pricing Resolver is missing from the sources). The outcome carries
  the number of calls the catalog has received afterwards.
\<close>

datatype fetched = GaveUp nat | Fetched "catalog_entry list" "nat option" nat

text \<open>
  Modelled from the spec: the call itself (the Pricing Resolver is missing from the sources): the
  first attempt, and one more when the catalog was unavailable.
\<close>

definition request_page :: "catalog \<Rightarrow> catalog_request \<Rightarrow> nat \<Rightarrow> fetched" where
  "request_page cat rq calls =
     (case cat calls rq of
        Page es next \<Rightarrow> Fetched es next (calls + 1)
      | Unavailable \<Rightarrow>
          (case cat (calls + 1) rq of
             Page es next \<Rightarrow> Fetched es next (calls + 2)
           | Unavailable \<Rightarrow> GaveUp (calls + 2)))"

text \<open>
  Modelled from the spec: "the resolver must keep requesting successive pages until the
  catalog signals completion, accumulating all matching records before returning" (the
  Pricing Resolver is missing from the sources). A catalog that never stops handing
  out tokens keeps the resolver from returning: the value is then \<open>None\<close>.
\<close>

partial_function (option) resolve_pages ::
  "catalog \<Rightarrow> ParameterSet \<Rightarrow> nat option \<Rightarrow> PricingRecord list \<Rightarrow> nat \<Rightarrow>
   ((error_kind + PricingRecord list) \<times> nat) option" where
  "resolve_pages cat p tok acc calls =
     (case request_page cat (build_request p tok) calls of
        GaveUp calls' \<Rightarrow> Some (Inl CatalogUnavailable, calls')
      | Fetched es next calls' \<Rightarrow>
          (case next of
             None \<Rightarrow> Some (Inr (acc @ List.map_filter shape es), calls')
           | Some t \<Rightarrow> resolve_pages cat p (Some t) (acc @ List.map_filter shape es) calls'))"

declare resolve_pages.simps [code]

text \<open>
  Modelled from the spec: \<open>resolve(params) -> ordered sequence of PricingRecord\<close> (the
  Pricing Resolver is missing from the sources), from the first page on.
\<close>

definition resolve ::
  "catalog \<Rightarrow> ParameterSet \<Rightarrow> nat \<Rightarrow> ((error_kind + PricingRecord list) \<times> nat) option" where
  "resolve cat p calls = resolve_pages cat p None [] calls"

subsection \<open>A stubbed catalog of N pages\<close>

text \<open>
  Modelled from the spec: the filter semantics of the catalog (the catalog is external):
  an entry matches when it has the value of every filter.
\<close>

fun entry_field :: "key \<Rightarrow> catalog_entry \<Rightarrow> string option" where
  "entry_field Region e = entry_region e"
| "entry_field InstanceType e = entry_instance_type e"
| "entry_field OS e = entry_operating_system e"

text \<open>
  Modelled from the spec: an entry passes a filter set when it passes every filter of the set (the
  catalog is external).
\<close>

definition entry_matches :: "(key \<times> string) list \<Rightarrow> catalog_entry \<Rightarrow> bool" where
  "entry_matches flt e = list_all (\<lambda>(k, x). entry_field k e = Some x) flt"

text \<open>
  Modelled from the spec: "a stubbed catalog returning N pages" (section 8) (the tests
  of the back end are missing from the sources). The token is the index of the next
  page; the stub is always available, answers the same at every call, and hands out a
  token while a later page exists.
\<close>

text \<open>
  Modelled from the spec: the page a request asks for (the tests of the back end are missing from
  the sources): the first page when it carries no token.
\<close>

definition page_index :: "nat option \<Rightarrow> nat" where
  "page_index tok = (case tok of None \<Rightarrow> 0 | Some t \<Rightarrow> t)"

text \<open>
  Modelled from the spec: the stubbed catalog itself (the tests of the back end are missing from
  the sources): the matching entries of the page asked for, and the token of the next page
  if there is one.
\<close>

definition stub_catalog :: "catalog_entry list list \<Rightarrow> catalog" where
  "stub_catalog pages calls rq =
     (let i = page_index (req_token rq)
      in Page (filter (entry_matches (req_filters rq)) (if i < length pages then pages ! i else []))
              (if i + 1 < length pages then Some (i + 1) else None))"

text \<open>
  Modelled from the spec: "an unchanged catalog" (section 8) (the catalog is external): its
  replies do not depend on the call.
\<close>

definition unchanged :: "catalog \<Rightarrow> bool" where
  "unchanged cat \<longleftrightarrow> (\<forall>m n rq. cat m rq = cat n rq)"

subsection \<open>Sample values of the pipeline\<close>





definition sample_parameters :: ParameterSet where
  "sample_parameters =
     \<lparr>ps_service = Some ''EC2'', ps_region = Some ''ap-northeast-1'',
      ps_instance_type = Some ''t2.micro'', ps_os = Some ''Linux''\<rparr>"

definition sample_entry :: "string \<Rightarrow> string \<Rightarrow> string option \<Rightarrow> catalog_entry" where
  "sample_entry i r price =
     \<lparr>entry_instance_type = Some i, entry_operating_system = Some ''Linux'',
      entry_region = Some r, entry_on_demand_price = price, entry_unit = Some ''Hrs''\<rparr>"

definition sample_pages :: "catalog_entry list list" where
  "sample_pages =
     [[sample_entry ''t2.micro'' ''ap-northeast-1'' (Some ''0.0152''),
       sample_entry ''t2.micro'' ''us-east-1'' (Some ''0.0116'')],
      [],
      [sample_entry ''t2.micro'' ''ap-northeast-1'' None,
       sample_entry ''t2.micro'' ''ap-northeast-1'' (Some ''0.0152'')]]"

definition sample_record :: PricingRecord where
  "sample_record =
     \<lparr>rec_instance_type = ''t2.micro'', rec_operating_system = ''Linux'',
      rec_region = ''ap-northeast-1'', rec_on_demand_price = ''0.0152'', rec_unit = ''Hrs''\<rparr>"

section \<open>Properties of the query form\<close>

subsection \<open>Auxiliary facts\<close>

lemma trim_empty_iff: "trim q = [] \<longleftrightarrow> (\<forall>c \<in> set q. isWhiteSpace c)"
proof
  assume "trim q = []"
  then have all: "\<forall>c \<in> set (dropWhile isWhiteSpace q). isWhiteSpace c"
    by (simp add: trim_def)
  show "\<forall>c \<in> set q. isWhiteSpace c"
  proof (cases "dropWhile isWhiteSpace q")
    case Nil
    then show ?thesis by simp
  next
    case (Cons x xs)
    then have "\<not> isWhiteSpace x" by (metis hd_dropWhile list.sel(1) list.distinct(1))
    moreover have "x \<in> set (dropWhile isWhiteSpace q)" using Cons by simp
    ultimately show ?thesis using all by blast
  qed
next
  assume "\<forall>c \<in> set q. isWhiteSpace c"
  then have d: "dropWhile isWhiteSpace q = []" by simp
  show "trim q = []" unfolding trim_def d by simp
qed

lemma blank_iff: "list_all isWhiteSpace q \<longleftrightarrow> trim q = []"
  by (simp add: trim_empty_iff list_all_iff)





lemma requests_append: "requests (xs @ ys) = requests xs @ requests ys"
  by (induction xs rule: requests.induct) simp_all

lemma requests_try_block: "requests (fst (try_block outcome)) = []"
  by (simp add: try_block_def split: settled.splits option.splits)

lemma requests_try_block_part_001: "requests (fst (try_block_part_001 outcome)) = []"
  by (simp add: try_block_part_001_def split: settled.splits)

lemma requests_catch_finally: "requests (catch_finally t) = []"
  by (simp add: catch_finally_def catch_block_def split: option.splits sum.splits)

lemma requests_handleSubmit:
  "requests (handleSubmit env post s) =
     (if trim (AppState.query s) = [] then []
      else [(API_BASE_URL env @ ascii ''/api/query'', \<lparr>RequestBody.query = AppState.query s\<rparr>)])"
  by (simp add: handleSubmit_def Let_def requests_append requests_try_block
        requests_catch_finally)

lemma requests_handleSubmit_part_001:
  "requests (handleSubmit_part_001 env post s) =
     (if trim (AppState.query s) = [] then []
      else [(API_BASE_URL env @ ascii ''/api/query'', \<lparr>RequestBody.query = AppState.query s\<rparr>)])"
  by (simp add: handleSubmit_part_001_def Let_def requests_append requests_try_block_part_001
        requests_catch_finally)

lemma run_blank:
  "trim (AppState.query s) = [] \<Longrightarrow>
   run (handleSubmit env post s) s = s\<lparr>error := Some msg_empty_query\<rparr>"
  by (simp add: handleSubmit_def run_def)

lemma run_fulfilled:
  "trim (AppState.query s) \<noteq> [] \<Longrightarrow>
   post (API_BASE_URL env @ ascii ''/api/query'') \<lparr>RequestBody.query = AppState.query s\<rparr> =
     Fulfilled (Some d) \<Longrightarrow>
   run (handleSubmit env post s) s =
     s\<lparr>loading := False, result := Some d,
       error := (if truthy (pricing_data d) \<and> js_length (pricing_data d) = Some 0
                 then Some msg_no_pricing else None)\<rparr>"
  by (simp add: handleSubmit_def run_def Let_def try_block_def catch_finally_def)

lemma run_fulfilled_null:
  "trim (AppState.query s) \<noteq> [] \<Longrightarrow>
   post (API_BASE_URL env @ ascii ''/api/query'') \<lparr>RequestBody.query = AppState.query s\<rparr> =
     Fulfilled None \<Longrightarrow>
   run (handleSubmit env post s) s =
     s\<lparr>loading := False, result := None, error := Some msg_cannot_connect\<rparr>"
  by (simp add: handleSubmit_def run_def Let_def try_block_def catch_finally_def
        catch_block_def failure_message_def)


lemma run_rejected_throws:
  "trim (AppState.query s) \<noteq> [] \<Longrightarrow>
   post (API_BASE_URL env @ ascii ''/api/query'') \<lparr>RequestBody.query = AppState.query s\<rparr> =
     Rejected err \<Longrightarrow>
   failure_message err = Inl x \<Longrightarrow>
   run (handleSubmit env post s) s = s\<lparr>loading := False, error := None\<rparr>"
  by (simp add: handleSubmit_def run_def Let_def try_block_def catch_finally_def catch_block_def)


lemma render_fulfilled:
  "render (s\<lparr>loading := False, result := Some d,
             error := (if truthy (pricing_data d) \<and> js_length (pricing_data d) = Some 0
                       then Some msg_no_pricing else None)\<rparr>) =
     \<lparr>submit_disabled = False,
      alert = (if truthy (pricing_data d) \<and> js_length (pricing_data d) = Some 0
               then Some msg_no_pricing else None),
      card = Some (render_card d)\<rparr>"
  by (simp add: render_def msg_no_pricing_def)

lemma render_card_error_object:
  "pricing_data r = PricingErrorObject e \<Longrightarrow>
   card_pricing_data (render_card r) = None \<and> card_info (render_card r) = None"
  by (simp add: render_card_def truthy_def js_length_def)

lemma render_card_array:
  "pricing_data r = PricingArray xs \<Longrightarrow>
   card_pricing_data (render_card r) = (if xs = [] then None else Some (PricingArray xs)) \<and>
   card_info (render_card r) = (if xs = [] then Some msg_no_pricing_info else None)"
  by (simp add: render_card_def truthy_def js_length_def has_error_key_def)

lemma sample_query_not_blank: "\<not> list_all isWhiteSpace (AppState.query sample_state)"
  by (simp add: sample_state_def sample_query_def ascii_def isWhiteSpace_def)

lemma sample_url:
  "API_BASE_URL None @ ascii ''/api/query'' = ascii ''http://localhost:3001/api/query''"
  by (simp add: API_BASE_URL_def or_else_def default_base_url_def ascii_def)

lemma sample_run_null_error_body:
  "run (handleSubmit None null_error_body sample_state) sample_state =
     sample_state\<lparr>loading := False, error := None\<rparr>"
proof -
  have t: "trim (AppState.query sample_state) \<noteq> []"
    using sample_query_not_blank by (simp add: blank_iff)
  show ?thesis
    by (rule run_rejected_throws
          [where x = TypeError and err = "AxiosError (Some \<lparr>data = NullBody\<rparr>)", OF t])
       (simp_all add: null_error_body_def failure_message_def)
qed

lemma sample_run_answers:
  "run (handleSubmit None (answers d) sample_state) sample_state =
     sample_state\<lparr>loading := False, result := Some d,
       error := (if truthy (pricing_data d) \<and> js_length (pricing_data d) = Some 0
                 then Some msg_no_pricing else None)\<rparr>"
proof -
  have t: "trim (AppState.query sample_state) \<noteq> []"
    using sample_query_not_blank by (simp add: blank_iff)
  show ?thesis
    by (rule run_fulfilled [OF t]) (simp add: answers_def)
qed

subsection \<open>Main properties of the form\<close>

text \<open>
  C1. Every request the form sends has one shape: the body \<open>{query}\<close>, holding the text
  of the input field, posted to \<open>/api/query\<close> under the base URL; a submission sends at
  most one. The answer is kept as a \<open>QueryResult\<close>, which is determined by its four
  fields \<open>query\<close>, \<open>parameters\<close>, \<open>pricing_data\<close> and \<open>response\<close>, and its
  \<open>parameters\<close> by the four optional keys \<open>service\<close>, \<open>region\<close>, \<open>instance_type\<close> and
  \<open>os\<close>.
\<close>

theorem query_contract:
  "requests (handleSubmit env post s) =
     (if list_all isWhiteSpace (AppState.query s) then []
      else [(API_BASE_URL env @ ascii ''/api/query'',
             \<lparr>RequestBody.query = AppState.query s\<rparr>)]) \<and>
   requests (handleSubmit_part_001 env post s) = requests (handleSubmit env post s) \<and>
   (\<forall>d. \<not> list_all isWhiteSpace (AppState.query s) \<and>
        post (API_BASE_URL env @ ascii ''/api/query'')
             \<lparr>RequestBody.query = AppState.query s\<rparr> = Fulfilled (Some d) \<longrightarrow>
        result (run (handleSubmit env post s) s) = Some d \<and>
        d = \<lparr>QueryResult.query = QueryResult.query d, parameters = parameters d,
             pricing_data = pricing_data d, response = response d\<rparr> \<and>
        parameters d = \<lparr>service = service (parameters d),
                        region = Parameters.region (parameters d),
                        instance_type = instance_type (parameters d),
                        os = os (parameters d)\<rparr>)"
proof -
  have "\<And>d. trim (AppState.query s) \<noteq> [] \<Longrightarrow>
        post (API_BASE_URL env @ ascii ''/api/query'')
             \<lparr>RequestBody.query = AppState.query s\<rparr> = Fulfilled (Some d) \<Longrightarrow>
        result (run (handleSubmit env post s) s) = Some d"
    by (simp add: run_fulfilled [where post = post and env = env])
  then show ?thesis
    by (simp add: requests_handleSubmit requests_handleSubmit_part_001 blank_iff)
qed

theorem query_contract_witness:
  "requests (handleSubmit (Some (ascii ''http://api.test'')) (answers sample_no_match)
      sample_state) =
     [(ascii ''http://api.test/api/query'', \<lparr>RequestBody.query = sample_query\<rparr>)] \<and>
   result (run (handleSubmit (Some (ascii ''http://api.test'')) (answers sample_no_match)
      sample_state) sample_state) = Some sample_no_match"
  using query_contract [of "Some (ascii ''http://api.test'')" "answers sample_no_match"
          sample_state]
        sample_query_not_blank
  by (simp add: sample_state_def API_BASE_URL_def or_else_def ascii_def answers_def)

text \<open>
  C2. At an error response whose body is \<open>null\<close>, received while an earlier answer is
  shown, line 72 throws inside the \<open>catch\<close> block: the earlier answer stays in its card
  and no error is shown, although the request failed. (An answer whose \<open>pricing_data\<close> is
  empty is delivered and shown with the warning and the informational alert.)
\<close>

theorem null_error_body_still_shows_previous_card:
  "render (run (handleSubmit None null_error_body sample_state) sample_state) =
     \<lparr>submit_disabled = False, alert = None, card = Some (render_card sample_no_match)\<rparr> \<and>
   render (run (handleSubmit None (answers sample_no_match) sample_state) sample_state) =
     \<lparr>submit_disabled = False, alert = Some msg_no_pricing,
      card = Some (render_card sample_no_match)\<rparr> \<and>
   card_response (render_card sample_no_match) = response sample_no_match \<and>
   card_info (render_card sample_no_match) = Some msg_no_pricing_info"
proof -
  have a: "render (sample_state\<lparr>loading := False, error := None\<rparr>) =
     \<lparr>submit_disabled = False, alert = None, card = Some (render_card sample_no_match)\<rparr>"
    by (simp add: render_def sample_state_def)
  have e: "truthy (pricing_data sample_no_match) \<and>
           js_length (pricing_data sample_no_match) = Some 0"
    by (simp add: sample_no_match_def truthy_def js_length_def)
  have b: "render (run (handleSubmit None (answers sample_no_match) sample_state) sample_state) =
     \<lparr>submit_disabled = False, alert = Some msg_no_pricing,
      card = Some (render_card sample_no_match)\<rparr>"
    unfolding sample_run_answers using render_fulfilled [where s = sample_state and d = sample_no_match] e
    by simp
  show ?thesis
    unfolding sample_run_null_error_body a b using e by (simp add: render_card_def)
qed




text \<open>
  C8. When the query is empty or consists of white space only, the handler sets the
  fixed validation message and does nothing else: no HTTP request, no change of
  \<open>loading\<close> or of the result in any state it passes through. This holds for both copies
  of the component.
\<close>

theorem blank_query_sends_nothing:
  assumes "list_all isWhiteSpace (AppState.query s)"
  shows "handleSubmit env post s = [PreventDefault, SetError (Some msg_empty_query)] \<and>
         handleSubmit_part_001 env post s = [PreventDefault, SetError (Some msg_empty_query)] \<and>
         requests (handleSubmit env post s) = [] \<and>
         (\<forall>t \<in> set (states_during (handleSubmit env post s) s).
            loading t = loading s \<and> result t = result s) \<and>
         run (handleSubmit env post s) s = s\<lparr>error := Some msg_empty_query\<rparr>"
proof -
  from assms have t: "trim (AppState.query s) = []" by (simp add: blank_iff)
  have h: "handleSubmit env post s = [PreventDefault, SetError (Some msg_empty_query)]"
    using t by (simp add: handleSubmit_def)
  have h': "handleSubmit_part_001 env post s = [PreventDefault, SetError (Some msg_empty_query)]"
    using t by (simp add: handleSubmit_part_001_def)
  show ?thesis unfolding h h' by (simp add: run_def)
qed

theorem blank_query_sends_nothing_witness:
  "list_all isWhiteSpace [0x0020, 0x3000, 0x000A] \<and>
   handleSubmit None no_response
     \<lparr>AppState.query = [0x0020, 0x3000, 0x000A], loading = False, error = None,
      result = Some sample_no_match\<rparr>
     = [PreventDefault, SetError (Some msg_empty_query)]"
  using blank_query_sends_nothing [of
     "\<lparr>AppState.query = [0x0020, 0x3000, 0x000A], loading = False, error = None,
      result = Some sample_no_match\<rparr>"
     None no_response]
  by (simp add: isWhiteSpace_def)

text \<open>
  C9. At an error response whose body is \<open>null\<close>, line 72 throws inside the \<open>catch\<close> block
  before \<open>setError\<close> and \<open>setResult(null)\<close>: the \<open>finally\<close> block still sets
  \<open>loading\<close> to false and the exception escapes, but the result of the earlier
  submission is not reset, although the request failed.
\<close>

theorem null_error_body_keeps_previous_result:
  "handleSubmit None null_error_body sample_state =
     [PreventDefault, SetLoading True, SetError None,
      AxiosPost (ascii ''http://localhost:3001/api/query'')
        \<lparr>RequestBody.query = sample_query\<rparr>,
      SetLoading False, Uncaught TypeError] \<and>
   result sample_state = Some sample_no_match \<and>
   result (run (handleSubmit None null_error_body sample_state) sample_state) =
     Some sample_no_match \<and>
   error (run (handleSubmit None null_error_body sample_state) sample_state) = None \<and>
   loading (run (handleSubmit None null_error_body sample_state) sample_state) = False"
proof -
  have t: "trim (AppState.query sample_state) \<noteq> []"
    using sample_query_not_blank by (simp add: blank_iff)
  have q: "AppState.query sample_state = sample_query" by (simp add: sample_state_def)
  have h: "handleSubmit None null_error_body sample_state =
     [PreventDefault, SetLoading True, SetError None,
      AxiosPost (ascii ''http://localhost:3001/api/query'')
        \<lparr>RequestBody.query = sample_query\<rparr>,
      SetLoading False, Uncaught TypeError]"
    using t
    by (simp add: handleSubmit_def Let_def sample_url q null_error_body_def try_block_def
          catch_finally_def catch_block_def failure_message_def)
  have a: "result sample_state = Some sample_no_match" by (simp add: sample_state_def)
  have r: "result (sample_state\<lparr>loading := False, error := None\<rparr>) = Some sample_no_match \<and>
           error (sample_state\<lparr>loading := False, error := None\<rparr>) = None \<and>
           loading (sample_state\<lparr>loading := False, error := None\<rparr>) = False"
    by (simp add: sample_state_def)
  show ?thesis
    unfolding sample_run_null_error_body using h a r by blast
qed

text \<open>
  C10. With \<open>REACT_APP_API_BASE_URL\<close> unset the query is posted to
  \<open>http://localhost:3001/api/query\<close>, while the setup document has the back end at
  \<open>http://localhost:5000\<close>: the two ports differ.
\<close>

theorem default_port_is_not_the_documented_one:
  assumes "\<not> list_all isWhiteSpace (AppState.query s)"
  shows "requests (handleSubmit None post s) =
           [(ascii ''http://localhost:3001/api/query'',
             \<lparr>RequestBody.query = AppState.query s\<rparr>)] \<and>
         url_port (ascii ''http://localhost:3001/api/query'') = ascii ''3001'' \<and>
         README_backend_url = ascii ''http://localhost:5000'' \<and>
         url_port README_backend_url = ascii ''5000'' \<and>
         url_port (API_BASE_URL None @ ascii ''/api/query'') \<noteq> url_port README_backend_url"
proof -
  from assms have t: "trim (AppState.query s) \<noteq> []" by (simp add: blank_iff)
  have p1: "url_port (ascii ''http://localhost:3001/api/query'') = ascii ''3001''"
    by (simp add: url_port_def url_authority_def ascii_def)
  have p2: "url_port README_backend_url = ascii ''5000''"
    by (simp add: url_port_def url_authority_def README_backend_url_def ascii_def)
  have ne: "ascii ''3001'' \<noteq> ascii ''5000''" by (simp add: ascii_def)
  show ?thesis
    unfolding requests_handleSubmit sample_url p1 p2 using t ne
    by (simp add: README_backend_url_def)
qed

theorem default_port_is_not_the_documented_one_witness:
  "\<not> list_all isWhiteSpace (AppState.query sample_state) \<and>
   requests (handleSubmit None no_response sample_state) =
     [(ascii ''http://localhost:3001/api/query'', \<lparr>RequestBody.query = sample_query\<rparr>)] \<and>
   url_port (ascii ''http://localhost:3001/api/query'') \<noteq> url_port README_backend_url"
  using default_port_is_not_the_documented_one [of sample_state no_response]
        sample_query_not_blank
  by (simp add: sample_state_def API_BASE_URL_def or_else_def default_base_url_def ascii_def)

section \<open>Properties of the pipeline\<close>

subsection \<open>Auxiliary facts\<close>

lemma map_filter_append: "List.map_filter f (xs @ ys) = List.map_filter f xs @ List.map_filter f ys"
  by (simp add: List.map_filter_def)

lemma request_page_stub:
  "request_page (stub_catalog pages) (build_request p tok) calls =
     Fetched (filter (entry_matches (build_filters p))
                (if page_index tok < length pages then pages ! page_index tok else []))
             (if page_index tok + 1 < length pages then Some (page_index tok + 1) else None)
             (calls + 1)"
  by (simp add: request_page_def stub_catalog_def build_request_def Let_def)

lemma resolve_pages_stub:
  "page_index tok < length pages \<Longrightarrow>
   resolve_pages (stub_catalog pages) p tok acc calls =
     Some (Inr (acc @ List.map_filter shape
                  (filter (entry_matches (build_filters p)) (concat (drop (page_index tok) pages)))),
           calls + (length pages - page_index tok))"
proof (induction "length pages - page_index tok" arbitrary: tok acc calls)
  case 0
  then show ?case by simp
next
  case (Suc n)
  let ?i = "page_index tok"
  have d: "drop ?i pages = pages ! ?i # drop (Suc ?i) pages"
    using Suc.prems by (simp add: Cons_nth_drop_Suc)
  show ?case
  proof (cases "?i + 1 < length pages")
    case True
    have n: "n = length pages - page_index (Some (?i + 1))"
      using Suc.hyps(2) by (simp add: page_index_def)
    have lt: "page_index (Some (?i + 1)) < length pages"
      using True by (simp add: page_index_def)
    have ih: "resolve_pages (stub_catalog pages) p (Some (Suc ?i)) acc' calls' =
        Some (Inr (acc' @ List.map_filter shape
                  (filter (entry_matches (build_filters p)) (concat (drop (Suc ?i) pages)))),
           calls' + (length pages - Suc ?i))" for acc' calls'
      using Suc.hyps(1) [OF n lt, of acc' calls'] by (simp add: page_index_def)
    show ?thesis
      apply (subst resolve_pages.simps)
      apply (simp only: request_page_stub)
      using True Suc.prems
      apply (simp add: ih d map_filter_append)
      done
  next
    case False
    then have l: "length pages = Suc ?i" using Suc.prems by simp
    then have e: "drop (Suc ?i) pages = []" by simp
    show ?thesis
      apply (subst resolve_pages.simps)
      apply (simp only: request_page_stub)
      using False Suc.prems l
      apply (simp add: d e)
      done
  qed
qed

lemma unchanged_stub_catalog: "unchanged (stub_catalog pages)"
  by (simp add: unchanged_def stub_catalog_def)

lemma request_page_unchanged:
  assumes "unchanged cat"
  shows "request_page cat rq c' =
           (case request_page cat rq c of
              GaveUp n \<Rightarrow> GaveUp (c' + 2)
            | Fetched es nx n \<Rightarrow> Fetched es nx (c' + (n - c)))"
proof -
  have a: "cat c' rq = cat c rq" and b: "cat (Suc c') rq = cat (Suc c) rq"
    using assms by (auto simp: unchanged_def)
  show ?thesis
    by (simp add: request_page_def a b split: catalog_reply.splits)
qed

lemma resolve_pages_unchanged:
  assumes "resolve_pages cat p tok acc c = Some y"
  shows "unchanged cat \<longrightarrow> (\<forall>c'. \<exists>c2. resolve_pages cat p tok acc c' = Some (fst y, c2))"
  using assms
proof (induction rule: resolve_pages.raw_induct [rotated 1, consumes 1, case_names step])
  case (step rp cat p tok acc calls y)
  show ?case
  proof (intro impI allI)
    fix c'
    assume u: "unchanged cat"
    note rq = request_page_unchanged [OF u, of "build_request p tok" c' calls]
    show "\<exists>c2. resolve_pages cat p tok acc c' = Some (fst y, c2)"
    proof (cases "request_page cat (build_request p tok) calls")
      case (GaveUp n)
      with step(2) have "fst y = Inl CatalogUnavailable" by auto
      moreover have "request_page cat (build_request p tok) c' = GaveUp (c' + 2)"
        using rq GaveUp by simp
      ultimately show ?thesis
        by (subst resolve_pages.simps) simp
    next
      case (Fetched es nx n)
      then have f': "request_page cat (build_request p tok) c' = Fetched es nx (c' + (n - calls))"
        using rq by simp
      show ?thesis
      proof (cases nx)
        case None
        with step(2) Fetched have "fst y = Inr (acc @ List.map_filter shape es)" by auto
        then show ?thesis
          by (subst resolve_pages.simps) (simp add: f' None)
      next
        case (Some t)
        with step(2) Fetched have "rp cat p (Some t) (acc @ List.map_filter shape es) n = Some y"
          by simp
        from step(1) [OF this] u obtain c2 where
          "resolve_pages cat p (Some t) (acc @ List.map_filter shape es) (c' + (n - calls)) =
             Some (fst y, c2)"
          by blast
        then show ?thesis
          by (subst resolve_pages.simps) (simp add: f' Some)
      qed
    qed
  qed
qed

lemma resolve_unchanged:
  assumes "unchanged cat" and "resolve cat p c = Some (r, c1)"
  shows "\<exists>c2. resolve cat p c' = Some (r, c2)"
  using resolve_pages_unchanged [of cat p None "[]" c "(r, c1)"] assms
  by (simp add: resolve_def)

lemma resolve_unchanged_eq:
  assumes "unchanged cat"
  shows "map_option fst (resolve cat p c) = map_option fst (resolve cat p c')"
proof (cases "resolve cat p c")
  case None
  show ?thesis
  proof (cases "resolve cat p c'")
    case n: None
    with None show ?thesis by simp
  next
    case (Some y)
    then have "resolve cat p c' = Some (fst y, snd y)" by simp
    from resolve_unchanged [OF assms this, of c] None show ?thesis by simp
  qed
next
  case (Some y)
  then have "resolve cat p c = Some (fst y, snd y)" by simp
  from resolve_unchanged [OF assms this, of c'] Some show ?thesis by auto
qed








lemma field_of_empty: "field_of empty_ParameterSet k = None"
  by (cases k) (simp_all add: empty_ParameterSet_def)

lemma set_build_filters:
  "(k, x) \<in> set (build_filters p) \<longleftrightarrow> field_of p k = Some x"
  by (cases k) (auto simp: build_filters_def filter_for_def split: option.splits)

lemma distinct_build_filters: "distinct (map fst (build_filters p))"
  by (simp add: build_filters_def filter_for_def split: option.splits)

lemma entry_matches_build_filters:
  "entry_matches (build_filters p) e \<longleftrightarrow>
     (\<forall>k x. field_of p k = Some x \<longrightarrow> entry_field k e = Some x)"
  by (auto simp: entry_matches_def list_all_iff set_build_filters)


subsection \<open>Main properties of the pipeline\<close>

text \<open>
  C4. Against a stubbed catalog of N pages the resolver returns, and what it returns is
  the matching entries of all pages in the order of the catalog, each shaped once:
  nothing is added, repeated, skipped or reordered, and the number of records is the
  number of matching entries that have every required field. It asks for every page
  once (for one page when the catalog has none).
\<close>

theorem resolve_collects_all_pages:
  "resolve (stub_catalog pages) p calls =
     Some (Inr (List.map_filter shape
                  (filter (entry_matches (build_filters p)) (concat pages))),
           calls + max 1 (length pages)) \<and>
   length (List.map_filter shape (filter (entry_matches (build_filters p)) (concat pages))) =
     length (filter (\<lambda>e. entry_matches (build_filters p) e \<and> shape e \<noteq> None) (concat pages))"
proof
  show "resolve (stub_catalog pages) p calls =
     Some (Inr (List.map_filter shape
                  (filter (entry_matches (build_filters p)) (concat pages))),
           calls + max 1 (length pages))"
  proof (cases "pages = []")
    case True
    show ?thesis
      unfolding resolve_def
      apply (subst resolve_pages.simps)
      apply (simp only: request_page_stub)
      apply (simp add: True page_index_def List.map_filter_def)
      done
  next
    case False
    then have "page_index None < length pages" by (simp add: page_index_def)
    from resolve_pages_stub [OF this, of p "[]" calls] False show ?thesis
      by (simp add: resolve_def page_index_def max_def Suc_leI)
  qed
next
  show "length (List.map_filter shape
                  (filter (entry_matches (build_filters p)) (concat pages))) =
     length (filter (\<lambda>e. entry_matches (build_filters p) e \<and> shape e \<noteq> None) (concat pages))"
    by (simp add: List.map_filter_def conj_commute)
qed

theorem resolve_collects_all_pages_witness:
  "resolve (stub_catalog sample_pages) sample_parameters 0 =
     Some (Inr [sample_record, sample_record], 3) \<and>
   List.map_filter shape
     (filter (entry_matches (build_filters sample_parameters)) (concat sample_pages)) =
     [sample_record, sample_record]"
proof -
  have "List.map_filter shape
     (filter (entry_matches (build_filters sample_parameters)) (concat sample_pages)) =
     [sample_record, sample_record]"
    by code_simp
  with resolve_collects_all_pages [of sample_pages sample_parameters 0] show ?thesis
    by (simp add: sample_pages_def)
qed




text \<open>
  C6. Against a catalog whose replies do not change between calls, the resolver's result
  for a ParameterSet does not depend on when it is invoked: a second invocation after a
  first one that returned returns as well, with the same sequence or the same error.
\<close>

theorem resolve_twice_identical:
  assumes "unchanged cat"
  shows "map_option fst (resolve cat p calls) = map_option fst (resolve cat p calls') \<and>
         (\<forall>r calls1. resolve cat p calls = Some (r, calls1) \<longrightarrow>
            (\<exists>calls2. resolve cat p calls1 = Some (r, calls2)))"
  using resolve_unchanged_eq [OF assms] resolve_unchanged [OF assms] by blast

theorem resolve_twice_identical_witness:
  "unchanged (stub_catalog sample_pages) \<and>
   resolve (stub_catalog sample_pages) sample_parameters 0 =
     Some (Inr [sample_record, sample_record], 3) \<and>
   resolve (stub_catalog sample_pages) sample_parameters 3 =
     Some (Inr [sample_record, sample_record], 6)"
proof -
  have u: "unchanged (stub_catalog sample_pages)" by (rule unchanged_stub_catalog)
  have r: "resolve (stub_catalog sample_pages) sample_parameters 0 =
             Some (Inr [sample_record, sample_record], 3)"
    by code_simp
  from resolve_twice_identical [OF u, of sample_parameters 0 0] r
  obtain calls2 where r2: "resolve (stub_catalog sample_pages) sample_parameters 3 =
             Some (Inr [sample_record, sample_record], calls2)"
    by blast
  have "resolve (stub_catalog sample_pages) sample_parameters 3 =
          Some (Inr [sample_record, sample_record], 6)"
    by code_simp
  with r2 have "calls2 = 6" by simp
  with u r r2 show ?thesis by simp
qed

text \<open>
  C7. The filters built from a ParameterSet are exactly its present region, instance type
  and OS, one filter each with the value of the field; an entry matches when it agrees
  on every present field, so an absent key constrains nothing and a ParameterSet without
  these keys matches every entry. Only the service is defaulted.
\<close>

theorem filters_are_the_present_fields:
  "(\<forall>k x. (k, x) \<in> set (build_filters p) \<longleftrightarrow> field_of p k = Some x) \<and>
   distinct (map fst (build_filters p)) \<and>
   req_filters (build_request p tok) = build_filters p \<and>
   req_service (build_request p tok) =
     (case ps_service p of None \<Rightarrow> supported_service | Some s \<Rightarrow> s) \<and>
   (\<forall>e. entry_matches (build_filters p) e \<longleftrightarrow>
        (\<forall>k x. field_of p k = Some x \<longrightarrow> entry_field k e = Some x)) \<and>
   ((\<forall>k. field_of p k = None) \<longrightarrow> build_filters p = [] \<and> (\<forall>e. entry_matches (build_filters p) e))"
proof -
  have "build_filters p = []" if a: "\<forall>k. field_of p k = None"
    using a [rule_format, of Region] a [rule_format, of InstanceType] a [rule_format, of OS]
    by (simp add: build_filters_def filter_for_def)
  moreover have "\<forall>e. entry_matches [] e" by (simp add: entry_matches_def)
  ultimately show ?thesis
    using set_build_filters [of _ _ p] distinct_build_filters [of p]
      entry_matches_build_filters [of p]
    by (simp add: build_request_def)
qed

theorem filters_are_the_present_fields_witness:
  "build_filters sample_parameters =
     [(Region, ''ap-northeast-1''), (InstanceType, ''t2.micro''), (OS, ''Linux'')] \<and>
   build_filters (sample_parameters\<lparr>ps_region := None, ps_os := None\<rparr>) =
     [(InstanceType, ''t2.micro'')] \<and>
   build_filters empty_ParameterSet = [] \<and>
   req_service (build_request empty_ParameterSet None) = ''EC2'' \<and>
   entry_matches (build_filters empty_ParameterSet)
     (sample_entry ''m5.xlarge'' ''us-east-1'' None)"
proof -
  have n: "\<forall>k. field_of empty_ParameterSet k = None" by (simp add: field_of_empty)
  have a: "build_filters sample_parameters =
     [(Region, ''ap-northeast-1''), (InstanceType, ''t2.micro''), (OS, ''Linux'')]"
    by (simp add: build_filters_def filter_for_def sample_parameters_def)
  have b: "build_filters (sample_parameters\<lparr>ps_region := None, ps_os := None\<rparr>) =
     [(InstanceType, ''t2.micro'')]"
    by (simp add: build_filters_def filter_for_def sample_parameters_def)
  note t = filters_are_the_present_fields [of empty_ParameterSet None]
  from t n have e: "build_filters empty_ParameterSet = []" by blast
  from t n have m: "entry_matches (build_filters empty_ParameterSet)
     (sample_entry ''m5.xlarge'' ''us-east-1'' None)" by blast
  from t have "req_service (build_request empty_ParameterSet None) =
     (case ps_service empty_ParameterSet of None \<Rightarrow> supported_service | Some s \<Rightarrow> s)"
    by blast
  then have s: "req_service (build_request empty_ParameterSet None) = ''EC2''"
    by (simp add: empty_ParameterSet_def supported_service_def)
  from a b e m s show ?thesis by blast
qed

end
